theory Spec2Isabelle
  imports Main "HOL-Library.Sublist" "HOL-Library.AList"
begin

section \<open>Paths\<close>

text \<open>
  A path is an absolute \<^verbatim>\<open>pathlib.Path\<close>, given by its components below the root:
  \<^verbatim>\<open>Path("/tmp/a")\<close> is \<open>[''tmp'', ''a'']\<close> and \<^verbatim>\<open>Path("/")\<close> is \<open>[]\<close>.
  \<open>parts\<close> is \<^verbatim>\<open>Path.parts\<close> (the root \<^verbatim>\<open>'/'\<close> first), \<open>parents\<close> is
  \<^verbatim>\<open>Path.parents\<close> (the immediate parent first, the root last) and \<open>name\<close> is
  \<^verbatim>\<open>Path.name\<close> (empty for the root).
\<close>

type_synonym path = "string list"

definition parts :: "path \<Rightarrow> string list" where
  "parts p = ''/'' # p"

definition parents :: "path \<Rightarrow> path list" where
  "parents p = map (\<lambda>k. take k p) (rev [0..<length p])"

definition name :: "path \<Rightarrow> string" where
  "name p = (if p = [] then [] else last p)"

section \<open>The process environment\<close>

text \<open>
  What the scripts read from the process: the effective user id (\<^verbatim>\<open>os.geteuid()\<close>), the home
  directory (\<^verbatim>\<open>Path.home()\<close>) and the canonicalisation of a path by the operating system
  (\<^verbatim>\<open>Path.resolve()\<close>), which the model takes as a function of the path.
\<close>

record env =
  euid :: nat
  home :: path
  resolve :: "path \<Rightarrow> path"

section \<open>Errors\<close>

text \<open>One constructor for each place where the scripts, or a library call they make, raise.\<close>

datatype error =
    RunningAsRoot             \<comment> \<open>RuntimeError: rejecting deletion, running as root\<close>
  | PathTooShort nat          \<comment> \<open>ValueError: path too short for deletion\<close>
  | NotSafeToDelete path      \<comment> \<open>ValueError: not identified as a safe path to delete\<close>
  | ExpectedFile path         \<comment> \<open>ValueError: expected file but found directory\<close>
  | PathDoesNotExist path     \<comment> \<open>FileNotFoundError: path does not exist\<close>
  | UnidentifiedKind path     \<comment> \<open>RuntimeError: exists, but neither file nor directory\<close>
  | UnsafeDirectory path      \<comment> \<open>ValueError: cannot install in an excluded directory\<close>
  | NotInsideHome path        \<comment> \<open>ValueError of \<^verbatim>\<open>relative_to\<close>\<close>
  | ClaudeMdNotFound path     \<comment> \<open>FileNotFoundError: CLAUDE.md file not found\<close>
  | NoLanguagesToKeep         \<comment> \<open>ValueError: no languages specified to keep\<close>
  | LanguagesDirNotFound path \<comment> \<open>FileNotFoundError: languages directory not found\<close>
  | LanguageNotFound string   \<comment> \<open>FileNotFoundError: language not found in repository\<close>
  | NoLanguagesSelected       \<comment> \<open>ValueError: no languages selected\<close>
  | InvalidNumber string      \<comment> \<open>ValueError: invalid number\<close>
  | UnknownLanguage string    \<comment> \<open>ValueError: unknown language\<close>
  | UserSetupDirNotFound path \<comment> \<open>FileNotFoundError: user setup directory not found\<close>
  | ManifestNotFound path     \<comment> \<open>FileNotFoundError: CLAUDE.md not found in repository\<close>
  | DoNotRunAsRoot            \<comment> \<open>RuntimeError of \<^verbatim>\<open>main\<close>: do not run this script as root\<close>
  | CloneFailed               \<comment> \<open>CalledProcessError of \<^verbatim>\<open>git clone\<close>\<close>
  | FileExistsError path      \<comment> \<open>raised by \<^verbatim>\<open>mkdir\<close>, \<^verbatim>\<open>symlink_to\<close>, \<^verbatim>\<open>copytree\<close>\<close>
  | FileNotFoundError path    \<comment> \<open>raised by a library call on a missing path\<close>
  | NotADirectoryError path   \<comment> \<open>raised by \<^verbatim>\<open>iterdir\<close> on something that is no directory\<close>
  | IsADirectoryError path    \<comment> \<open>raised by \<^verbatim>\<open>unlink\<close>, \<^verbatim>\<open>read_text\<close>, \<^verbatim>\<open>copy2\<close> on a directory\<close>
  | OSError path              \<comment> \<open>any other failure of a library call\<close>

section \<open>The file system\<close>

text \<open>
  The file system is the tree below the root. A directory lists its entries in the order
  \<^verbatim>\<open>iterdir\<close> yields them; a symbolic link stores its target; \<open>Other\<close> is a special file
  (FIFO, socket, device). \<open>lstat\<close> looks a path up without following a link at its end,
  \<open>realpath\<close> follows the links at the end of a path to the path they lead to, giving up
  after 40 of them as the kernel does, and \<open>stat\<close> looks up what is there.
  Links in the middle of a path are not traversed by the model.
\<close>

datatype node = File string | Dir "(string \<times> node) list" | Symlink path | Other

fun lstat :: "node \<Rightarrow> path \<Rightarrow> node option" where
  "lstat n [] = Some n"
| "lstat (Dir es) (x # p) = (case map_of es x of None \<Rightarrow> None | Some c \<Rightarrow> lstat c p)"
| "lstat _ (x # p) = None"

fun follow :: "nat \<Rightarrow> node \<Rightarrow> path \<Rightarrow> path option" where
  "follow 0 fs p = None"
| "follow (Suc k) fs p =
     (case lstat fs p of Some (Symlink t) \<Rightarrow> follow k fs t | _ \<Rightarrow> Some p)"

definition realpath :: "node \<Rightarrow> path \<Rightarrow> path option" where
  "realpath fs p = follow (Suc 40) fs p"

definition stat :: "node \<Rightarrow> path \<Rightarrow> node option" where
  "stat fs p = (case realpath fs p of None \<Rightarrow> None | Some q \<Rightarrow> lstat fs q)"

definition is_dir :: "node \<Rightarrow> path \<Rightarrow> bool" where
  "is_dir fs p = (case stat fs p of Some (Dir _) \<Rightarrow> True | _ \<Rightarrow> False)"

definition is_file :: "node \<Rightarrow> path \<Rightarrow> bool" where
  "is_file fs p = (case stat fs p of Some (File _) \<Rightarrow> True | _ \<Rightarrow> False)"

definition is_symlink :: "node \<Rightarrow> path \<Rightarrow> bool" where
  "is_symlink fs p = (case lstat fs p of Some (Symlink _) \<Rightarrow> True | _ \<Rightarrow> False)"

definition exists :: "node \<Rightarrow> path \<Rightarrow> bool" where
  "exists fs p = (stat fs p \<noteq> None)"

text \<open>
  \<open>alter p f fs\<close> replaces the entry at \<open>p\<close> by \<open>f\<close> of what is there (\<open>None\<close>: no entry),
  when the parent of \<open>p\<close> is a directory; otherwise, and at the root, nothing changes.
\<close>

fun set_entry :: "string \<Rightarrow> node option \<Rightarrow> (string \<times> node) list \<Rightarrow> (string \<times> node) list" where
  "set_entry k None es = AList.delete k es"
| "set_entry k (Some v) es = AList.update k v es"

fun alter :: "path \<Rightarrow> (node option \<Rightarrow> node option) \<Rightarrow> node \<Rightarrow> node" where
  "alter [] f n = n"
| "alter [x] f (Dir es) = Dir (set_entry x (f (map_of es x)) es)"
| "alter (x # y # p) f (Dir es) =
     (case map_of es x of
        None \<Rightarrow> Dir es
      | Some c \<Rightarrow> Dir (AList.update x (alter (y # p) f c) es))"
| "alter (x # p) f n = n"

text \<open>
  \<^verbatim>\<open>shutil.rmtree\<close> refuses a symbolic link and removes a directory with all it holds;
  \<^verbatim>\<open>Path.unlink\<close> removes a file, a link or a special file and refuses a directory.
\<close>

definition rmtree :: "path \<Rightarrow> node \<Rightarrow> (error + unit) \<times> node" where
  "rmtree p fs =
     (case lstat fs p of
        Some (Dir _) \<Rightarrow> (Inr (), alter p (\<lambda>_. None) fs)
      | Some (Symlink _) \<Rightarrow> (Inl (OSError p), fs)
      | Some _ \<Rightarrow> (Inl (NotADirectoryError p), fs)
      | None \<Rightarrow> (Inl (FileNotFoundError p), fs))"

definition unlink :: "path \<Rightarrow> node \<Rightarrow> (error + unit) \<times> node" where
  "unlink p fs =
     (case lstat fs p of
        Some (Dir _) \<Rightarrow> (Inl (IsADirectoryError p), fs)
      | Some _ \<Rightarrow> (Inr (), alter p (\<lambda>_. None) fs)
      | None \<Rightarrow> (Inl (FileNotFoundError p), fs))"

section \<open>Project installer: the safety validators\<close>

definition excluded_dirs :: "env \<Rightarrow> path list" where
  "excluded_dirs e =
     [home e, home e @ [''Documents''], home e @ [''Desktop''], home e @ [''Downloads''],
      [''tmp''], [''var''], [''Users''], [''home''], [''System''], [''usr''], [''opt'']]"

text \<open>The loop of \<^verbatim>\<open>check_safe_directory\<close>: the first excluded directory that matches raises.\<close>

fun check_excluded :: "env \<Rightarrow> path \<Rightarrow> path list \<Rightarrow> error + unit" where
  "check_excluded e resolved_target [] = Inr ()"
| "check_excluded e resolved_target (excluded # rest) =
     (if resolved_target = resolve e excluded then Inl (UnsafeDirectory excluded)
      else check_excluded e resolved_target rest)"

definition check_safe_directory :: "env \<Rightarrow> path \<Rightarrow> error + unit" where
  "check_safe_directory e target_dir = check_excluded e (resolve e target_dir) (excluded_dirs e)"

definition temp_roots :: "path list" where
  "temp_roots =
     [[''tmp''], [''private'', ''var'', ''folders''], [''var'', ''folders''], [''var'', ''tmp''],
      [''private'', ''tmp'']]"

text \<open>The loop of \<^verbatim>\<open>safe_delete\<close> that sets \<^verbatim>\<open>is_safe\<close>.\<close>

fun is_safe_loop :: "path \<Rightarrow> path list \<Rightarrow> bool \<Rightarrow> bool" where
  "is_safe_loop resolved_path [] is_safe = is_safe"
| "is_safe_loop resolved_path (single_root # rest) is_safe =
     is_safe_loop resolved_path rest
       (if single_root \<in> set (parents resolved_path) then True else is_safe)"

definition safe_delete :: "env \<Rightarrow> node \<Rightarrow> path \<Rightarrow> bool \<Rightarrow> (error + unit) \<times> node" where
  "safe_delete e fs p directory_okay =
     (if euid e = 0 then (Inl RunningAsRoot, fs)
      else
        let resolved_path = resolve e p in
        if length (parts resolved_path) \<le> 1
        then (Inl (PathTooShort (length (parts resolved_path))), fs)
        else if \<not> is_safe_loop resolved_path temp_roots False
        then (Inl (NotSafeToDelete resolved_path), fs)
        else if is_dir fs resolved_path \<and> directory_okay then rmtree resolved_path fs
        else if is_dir fs resolved_path \<and> \<not> directory_okay
        then (Inl (ExpectedFile resolved_path), fs)
        else if is_file fs resolved_path \<or> is_symlink fs resolved_path
        then unlink resolved_path fs
        else if \<not> exists fs resolved_path then (Inl (PathDoesNotExist resolved_path), fs)
        else (Inl (UnidentifiedKind resolved_path), fs))"


section \<open>Strings\<close>

text \<open>
  Text is modelled for ASCII characters. \<open>contains sub s\<close> is \<^verbatim>\<open>sub in s\<close>;
  \<open>split_on sep s\<close> is \<^verbatim>\<open>s.split(sep)\<close> for a separator that is not empty (the scripts
  only split on constants); \<open>join_str\<close> is \<^verbatim>\<open>sep.join\<close>. \<open>splitlines\<close> breaks a text at
  the line boundaries among the ASCII characters (line feed, carriage return with an
  optional line feed, vertical tab, form feed, file, group and record separator).
  Outside ASCII \<^verbatim>\<open>str.splitlines\<close> knows further boundaries (U+0085, U+2028, U+2029)
  and a file may fail to decode; the statements about text are made for ASCII content.
\<close>

fun contains :: "string \<Rightarrow> string \<Rightarrow> bool" where
  "contains sub [] = (sub = [])"
| "contains sub (c # cs) = (prefix sub (c # cs) \<or> contains sub cs)"

fun split_on :: "string \<Rightarrow> string \<Rightarrow> string list" where
  "split_on sep [] = [[]]"
| "split_on sep (c # cs) =
     (if sep \<noteq> [] \<and> prefix sep (c # cs) then [] # split_on sep (drop (length sep - 1) cs)
      else (case split_on sep cs of [] \<Rightarrow> [[c]] | w # ws \<Rightarrow> (c # w) # ws))"

fun join_str :: "string \<Rightarrow> string list \<Rightarrow> string" where
  "join_str sep [] = []"
| "join_str sep [x] = x"
| "join_str sep (x # y # xs) = x @ sep @ join_str sep (y # xs)"

definition is_linebreak :: "char \<Rightarrow> bool" where
  "is_linebreak c = (c \<in> set [CHR 0x0A, CHR 0x0D, CHR 0x0B, CHR 0x0C, CHR 0x1C, CHR 0x1D, CHR 0x1E])"

fun splitlines_loop :: "string \<Rightarrow> string \<Rightarrow> string list" where
  "splitlines_loop cur [] = (if cur = [] then [] else [rev cur])"
| "splitlines_loop cur [c] = (if is_linebreak c then [rev cur] else [rev (c # cur)])"
| "splitlines_loop cur (c # d # cs) =
     (if c = CHR 0x0D \<and> d = CHR 0x0A then rev cur # splitlines_loop [] cs
      else if is_linebreak c then rev cur # splitlines_loop [] (d # cs)
      else splitlines_loop (c # cur) (d # cs))"

definition splitlines :: "string \<Rightarrow> string list" where
  "splitlines s = splitlines_loop [] s"

text \<open>
  White space as \<^verbatim>\<open>str.strip()\<close> and \<^verbatim>\<open>str.split()\<close> see it, and decimal digits as
  \<^verbatim>\<open>str.isdigit()\<close> and \<^verbatim>\<open>int()\<close> read them, among the ASCII characters. Outside
  ASCII there are further white space characters and digits, and \<^verbatim>\<open>int()\<close> refuses a
  string of more than 4300 digits: the statements about the selection are made for ASCII
  lines of at most 4300 characters.
\<close>

definition is_space :: "char \<Rightarrow> bool" where
  "is_space c =
     (c \<in> set [CHR 0x20, CHR 0x09, CHR 0x0A, CHR 0x0B, CHR 0x0C, CHR 0x0D,
                CHR 0x1C, CHR 0x1D, CHR 0x1E, CHR 0x1F])"

definition strip :: "string \<Rightarrow> string" where
  "strip s = rev (dropWhile is_space (rev (dropWhile is_space s)))"

fun split_ws_loop :: "string \<Rightarrow> string \<Rightarrow> string list" where
  "split_ws_loop cur [] = (if cur = [] then [] else [rev cur])"
| "split_ws_loop cur (c # cs) =
     (if is_space c then (if cur = [] then split_ws_loop [] cs else rev cur # split_ws_loop [] cs)
      else split_ws_loop (c # cur) cs)"

definition split_ws :: "string \<Rightarrow> string list" where
  "split_ws s = split_ws_loop [] s"

definition is_digit :: "char \<Rightarrow> bool" where
  "is_digit c = (c \<in> set ''0123456789'')"

definition isdigit :: "string \<Rightarrow> bool" where
  "isdigit s = (s \<noteq> [] \<and> list_all is_digit s)"

definition digit_val :: "char \<Rightarrow> int" where
  "digit_val c = int (of_char c) - 48"

definition int_of_str :: "string \<Rightarrow> int" where
  "int_of_str s = foldl (\<lambda>a c. 10 * a + digit_val c) 0 s"

section \<open>Project installer: the language filter\<close>

definition marker :: string where
  "marker = ''@agent_instructions/languages/''"

text \<open>The loop of \<^verbatim>\<open>clean_claude_md\<close> over the lines, appending to \<^verbatim>\<open>filtered_lines\<close>.\<close>

fun filter_lines :: "string list \<Rightarrow> string list \<Rightarrow> string list \<Rightarrow> string list" where
  "filter_lines keep_languages [] filtered_lines = filtered_lines"
| "filter_lines keep_languages (line # rest) filtered_lines =
     (if contains marker line then
        (let ps = split_on marker line in
         if length ps > 1 then
           (let lang_part = hd (split_on ''/'' (ps ! 1)) in
            if lang_part \<in> set keep_languages
            then filter_lines keep_languages rest (filtered_lines @ [line])
            else filter_lines keep_languages rest filtered_lines)
         else filter_lines keep_languages rest filtered_lines)
      else filter_lines keep_languages rest (filtered_lines @ [line]))"

text \<open>
  \<^verbatim>\<open>write_text\<close> opens the path for writing: it follows links, creates the file when it is
  missing and replaces the content of a regular file.
\<close>

definition write_text :: "path \<Rightarrow> string \<Rightarrow> node \<Rightarrow> (error + unit) \<times> node" where
  "write_text p s fs =
     (case realpath fs p of
        None \<Rightarrow> (Inl (OSError p), fs)
      | Some q \<Rightarrow>
          (case lstat fs q of
             Some (Dir _) \<Rightarrow> (Inl (IsADirectoryError q), fs)
           | Some Other \<Rightarrow> (Inl (OSError q), fs)
           | _ \<Rightarrow>
               (case lstat fs (butlast q) of
                  Some (Dir _) \<Rightarrow> (Inr (), alter q (\<lambda>_. Some (File s)) fs)
                | _ \<Rightarrow> (Inl (FileNotFoundError q), fs))))"

definition read_text :: "node \<Rightarrow> path \<Rightarrow> error + string" where
  "read_text fs p =
     (case stat fs p of
        Some (File s) \<Rightarrow> Inr s
      | Some (Dir _) \<Rightarrow> Inl (IsADirectoryError p)
      | Some _ \<Rightarrow> Inl (OSError p)
      | None \<Rightarrow> Inl (FileNotFoundError p))"

definition clean_claude_md :: "node \<Rightarrow> path \<Rightarrow> string list \<Rightarrow> (error + unit) \<times> node" where
  "clean_claude_md fs claude_md_path keep_languages =
     (if \<not> is_file fs claude_md_path then (Inl (ClaudeMdNotFound claude_md_path), fs)
      else if keep_languages = [] then (Inl NoLanguagesToKeep, fs)
      else
        (case read_text fs claude_md_path of
           Inl err \<Rightarrow> (Inl err, fs)
         | Inr s \<Rightarrow>
             write_text claude_md_path
               (join_str [CHR 0x0A] (filter_lines keep_languages (splitlines s) []) @ [CHR 0x0A])
               fs))"

text \<open>
  \<^verbatim>\<open>iterdir\<close> yields the children of a directory, in the order the directory lists them.
\<close>

definition child :: "path \<Rightarrow> string \<Rightarrow> path" where
  "child d n = (if n = [] then d else d @ [n])"

definition iterdir :: "node \<Rightarrow> path \<Rightarrow> error + path list" where
  "iterdir fs d =
     (case stat fs d of
        Some (Dir es) \<Rightarrow> Inr (map (\<lambda>entry. d @ [fst entry]) es)
      | Some _ \<Rightarrow> Inl (NotADirectoryError d)
      | None \<Rightarrow> Inl (FileNotFoundError d))"

fun clean_language_loop ::
  "env \<Rightarrow> string list \<Rightarrow> path list \<Rightarrow> node \<Rightarrow> (error + unit) \<times> node" where
  "clean_language_loop e keep_languages [] fs = (Inr (), fs)"
| "clean_language_loop e keep_languages (lang_path # rest) fs =
     (if is_dir fs lang_path \<and> name lang_path \<notin> set keep_languages then
        (case safe_delete e fs lang_path True of
           (Inl err, fs') \<Rightarrow> (Inl err, fs')
         | (Inr _, fs') \<Rightarrow> clean_language_loop e keep_languages rest fs')
      else clean_language_loop e keep_languages rest fs)"

definition clean_language_files ::
  "env \<Rightarrow> node \<Rightarrow> path \<Rightarrow> string list \<Rightarrow> (error + unit) \<times> node" where
  "clean_language_files e fs temp_source_dir keep_languages =
     (if keep_languages = [] then (Inl NoLanguagesToKeep, fs)
      else
        let lang_dir = temp_source_dir @ [''agent_instructions'', ''languages''] in
        if \<not> exists fs lang_dir then (Inl (LanguagesDirNotFound lang_dir), fs)
        else
          (case iterdir fs lang_dir of
             Inl err \<Rightarrow> (Inl err, fs)
           | Inr children \<Rightarrow> clean_language_loop e keep_languages children fs))"

section \<open>Project installer: language selection\<close>

fun select_loop :: "string list \<Rightarrow> string list \<Rightarrow> string list \<Rightarrow> error + string list" where
  "select_loop available_languages [] chosen_languages = Inr chosen_languages"
| "select_loop available_languages (part # rest) chosen_languages =
     (if isdigit part then
        (let index = int_of_str part - 1 in
         if 0 \<le> index \<and> index < int (length available_languages)
         then select_loop available_languages rest
                (chosen_languages @ [available_languages ! nat index])
         else Inl (InvalidNumber part))
      else if part \<in> set available_languages
      then select_loop available_languages rest (chosen_languages @ [part])
      else Inl (UnknownLanguage part))"

fun unique_loop :: "string list \<Rightarrow> string set \<Rightarrow> string list \<Rightarrow> string list" where
  "unique_loop [] seen unique_languages = unique_languages"
| "unique_loop (lang # rest) seen unique_languages =
     (if lang \<notin> seen then unique_loop rest (insert lang seen) (unique_languages @ [lang])
      else unique_loop rest seen unique_languages)"

text \<open>
  The argument is the line \<^verbatim>\<open>input("> ")\<close> returned; when \<^verbatim>\<open>input\<close> raises (end of
  file, interrupt) the function re-raises and none of this runs.
\<close>

definition choose_languages_interactively :: "string list \<Rightarrow> string \<Rightarrow> error + string list" where
  "choose_languages_interactively available_languages line =
     (let user_input = strip line in
      if user_input = [] then Inl NoLanguagesSelected
      else
        (case select_loop available_languages (split_ws user_input) [] of
           Inl err \<Rightarrow> Inl err
         | Inr chosen_languages \<Rightarrow> Inr (unique_loop chosen_languages {} [])))"


section \<open>Library calls that change the file system\<close>

text \<open>
  \<^verbatim>\<open>Path.mkdir()\<close> with its defaults: the path must be free and its parent a directory.
\<close>

definition mkdir :: "path \<Rightarrow> node \<Rightarrow> (error + unit) \<times> node" where
  "mkdir p fs =
     (case lstat fs p of
        Some _ \<Rightarrow> (Inl (FileExistsError p), fs)
      | None \<Rightarrow>
          (case lstat fs (butlast p) of
             Some (Dir _) \<Rightarrow> (Inr (), alter p (\<lambda>_. Some (Dir [])) fs)
           | _ \<Rightarrow> (Inl (FileNotFoundError p), fs)))"

text \<open>
  \<^verbatim>\<open>shutil.move(src, dst)\<close>: into \<open>dst\<close> when that is a directory (refusing a name taken
  there), else onto \<open>dst\<close> by \<^verbatim>\<open>os.rename\<close>. A directory is not moved into itself, and
  where \<^verbatim>\<open>os.rename\<close> refuses a directory over something that is none, the copy
  \<^verbatim>\<open>shutil.move\<close> falls back to finds the name taken.
\<close>

definition move :: "path \<Rightarrow> path \<Rightarrow> node \<Rightarrow> (error + unit) \<times> node" where
  "move src dst fs =
     (let real_dst = (if is_dir fs dst then dst @ [name src] else dst) in
      if is_dir fs dst \<and> exists fs real_dst then (Inl (FileExistsError real_dst), fs)
      else
        (case lstat fs src of
           None \<Rightarrow> (Inl (FileNotFoundError src), fs)
         | Some n \<Rightarrow>
             if src = real_dst then (Inr (), fs)
             else if prefix src real_dst then (Inl (OSError src), fs)
             else
               (case lstat fs (butlast real_dst) of
                  Some (Dir _) \<Rightarrow>
                    (case (n, lstat fs real_dst) of
                       (_, None) \<Rightarrow>
                         (Inr (), alter real_dst (\<lambda>_. Some n) (alter src (\<lambda>_. None) fs))
                     | (Dir _, Some _) \<Rightarrow> (Inl (FileExistsError real_dst), fs)
                     | (_, Some (Dir _)) \<Rightarrow> (Inl (IsADirectoryError real_dst), fs)
                     | (_, Some _) \<Rightarrow>
                         (Inr (), alter real_dst (\<lambda>_. Some n) (alter src (\<lambda>_. None) fs)))
                | _ \<Rightarrow> (Inl (FileNotFoundError real_dst), fs))))"

text \<open>
  \<^verbatim>\<open>shutil.copy2(src, dst)\<close>: reads the file at \<open>src\<close> and writes it to \<open>dst\<close>, or into
  \<open>dst\<close> under the name of \<open>src\<close> when \<open>dst\<close> is a directory. The model has no
  metadata to copy.
\<close>

definition copy2 :: "path \<Rightarrow> path \<Rightarrow> node \<Rightarrow> (error + unit) \<times> node" where
  "copy2 src dst fs =
     (let real_dst = (if is_dir fs dst then dst @ [name src] else dst) in
      case read_text fs src of
        Inl err \<Rightarrow> (Inl err, fs)
      | Inr s \<Rightarrow> write_text real_dst s fs)"

text \<open>
  \<^verbatim>\<open>shutil.copytree(src, dst)\<close>: \<open>dst\<close> must be free; it becomes a copy of the tree at
  \<open>src\<close>. The model copies trees of regular files and directories, which is what
  \<^verbatim>\<open>zipfile\<close> extracts; a tree that holds a link or a special file is reported as an
  error. The parent of \<open>dst\<close> is expected to be a directory (the installer copies into the
  current directory).
\<close>

fun plain :: "node \<Rightarrow> bool" where
  "plain (File s) = True"
| "plain (Dir es) = list_all (\<lambda>entry. plain (snd entry)) es"
| "plain (Symlink t) = False"
| "plain Other = False"

definition copytree :: "path \<Rightarrow> path \<Rightarrow> node \<Rightarrow> (error + unit) \<times> node" where
  "copytree src dst fs =
     (case stat fs src of
        Some (Dir es) \<Rightarrow>
          (case lstat fs dst of
             Some _ \<Rightarrow> (Inl (FileExistsError dst), fs)
           | None \<Rightarrow>
               (case lstat fs (butlast dst) of
                  Some (Dir _) \<Rightarrow>
                    if plain (Dir es) then (Inr (), alter dst (\<lambda>_. Some (Dir es)) fs)
                    else (Inl (OSError src), fs)
                | _ \<Rightarrow> (Inl (FileNotFoundError dst), fs)))
      | Some _ \<Rightarrow> (Inl (NotADirectoryError src), fs)
      | None \<Rightarrow> (Inl (FileNotFoundError src), fs))"

definition symlink_to :: "path \<Rightarrow> path \<Rightarrow> node \<Rightarrow> (error + unit) \<times> node" where
  "symlink_to link target fs =
     (case lstat fs link of
        Some _ \<Rightarrow> (Inl (FileExistsError link), fs)
      | None \<Rightarrow>
          (case lstat fs (butlast link) of
             Some (Dir _) \<Rightarrow> (Inr (), alter link (\<lambda>_. Some (Symlink target)) fs)
           | _ \<Rightarrow> (Inl (FileNotFoundError link), fs)))"

section \<open>Project installer: backup and installation\<close>

text \<open>
  \<open>now\<close> is \<^verbatim>\<open>datetime.now().strftime("%Y%m%d_%H%M%S")\<close>. The messages printed by
  \<^verbatim>\<open>backup_conflicting_files\<close> are not part of the model.
\<close>

fun conflicts_loop :: "node \<Rightarrow> path \<Rightarrow> path list \<Rightarrow> string list \<Rightarrow> string list" where
  "conflicts_loop fs dest_dir [] conflicts = conflicts"
| "conflicts_loop fs dest_dir (source_item # rest) conflicts =
     (let dest_item = child dest_dir (name source_item) in
      if exists fs dest_item then conflicts_loop fs dest_dir rest (conflicts @ [name dest_item])
      else conflicts_loop fs dest_dir rest conflicts)"

fun move_loop :: "path \<Rightarrow> path \<Rightarrow> string list \<Rightarrow> node \<Rightarrow> (error + unit) \<times> node" where
  "move_loop dest_dir backup_dir [] fs = (Inr (), fs)"
| "move_loop dest_dir backup_dir (item_name # rest) fs =
     (let source_path = child dest_dir item_name; dest_path = child backup_dir item_name in
      case move source_path dest_path fs of
        (Inl err, fs') \<Rightarrow> (Inl err, fs')
      | (Inr _, fs') \<Rightarrow> move_loop dest_dir backup_dir rest fs')"

definition backup_name :: "string \<Rightarrow> string" where
  "backup_name now = ''.claude_backup_'' @ now"

definition backup_conflicting_files ::
  "string \<Rightarrow> node \<Rightarrow> path \<Rightarrow> path list \<Rightarrow> (error + unit) \<times> node" where
  "backup_conflicting_files now fs dest_dir source_items =
     (let conflicts = conflicts_loop fs dest_dir source_items [] in
      if conflicts \<noteq> [] then
        (let backup_dir = child dest_dir (backup_name now) in
         case mkdir backup_dir fs of
           (Inl err, fs') \<Rightarrow> (Inl err, fs')
         | (Inr _, fs') \<Rightarrow> move_loop dest_dir backup_dir conflicts fs')
      else (Inr (), fs))"

text \<open>
  \<^verbatim>\<open>(lang_dir / lang).exists()\<close> for a string the user gave. \<^verbatim>\<open>pathlib\<close> splits the
  string at the slashes and drops the empty components and the dots; an absolute string
  replaces the directory; a component \<^verbatim>\<open>..\<close> stays in the path, and the operating system
  takes it to the parent of the directory reached, which \<open>walk\<close> does.
\<close>

definition path_components :: "string \<Rightarrow> string list" where
  "path_components s = filter (\<lambda>x. x \<noteq> [] \<and> x \<noteq> ''.'') (split_on ''/'' s)"

fun walk :: "node \<Rightarrow> path \<Rightarrow> string list \<Rightarrow> path option" where
  "walk fs cur [] = Some cur"
| "walk fs cur (c # cs) =
     (if c = ''..'' then
        (case lstat fs cur of Some (Dir _) \<Rightarrow> walk fs (butlast cur) cs | _ \<Rightarrow> None)
      else walk fs (cur @ [c]) cs)"

definition joined_exists :: "node \<Rightarrow> path \<Rightarrow> string \<Rightarrow> bool" where
  "joined_exists fs d s =
     (case walk fs (if prefix ''/'' s then [] else d) (path_components s) of
        None \<Rightarrow> False
      | Some q \<Rightarrow> exists fs q)"

fun validate_languages :: "node \<Rightarrow> path \<Rightarrow> string list \<Rightarrow> error + unit" where
  "validate_languages fs lang_dir [] = Inr ()"
| "validate_languages fs lang_dir (lang # rest) =
     (if \<not> joined_exists fs lang_dir lang then Inl (LanguageNotFound lang)
      else validate_languages fs lang_dir rest)"

fun remove_loop :: "path \<Rightarrow> string list \<Rightarrow> node \<Rightarrow> (error + unit) \<times> node" where
  "remove_loop temp_source_dir [] fs = (Inr (), fs)"
| "remove_loop temp_source_dir (file_name # rest) fs =
     (let file_path = child temp_source_dir file_name in
      if exists fs file_path then
        (case unlink file_path fs of
           (Inl err, fs') \<Rightarrow> (Inl err, fs')
         | (Inr _, fs') \<Rightarrow> remove_loop temp_source_dir rest fs')
      else remove_loop temp_source_dir rest fs)"

text \<open>
  The copy loop of \<^verbatim>\<open>install_configuration\<close>. Beside the result and the file system it
  returns the paths it called \<^verbatim>\<open>shutil.rmtree\<close> on, in order.
\<close>

fun copy_loop ::
  "path \<Rightarrow> path list \<Rightarrow> node \<Rightarrow> path list \<Rightarrow> (error + unit) \<times> node \<times> path list" where
  "copy_loop dest_dir [] fs removed = (Inr (), fs, removed)"
| "copy_loop dest_dir (item # rest) fs removed =
     (let dest = child dest_dir (name item) in
      if is_dir fs item then
        (if exists fs dest then
           (case rmtree dest fs of
              (Inl err, fs') \<Rightarrow> (Inl err, fs', removed @ [dest])
            | (Inr _, fs') \<Rightarrow>
                (case copytree item dest fs' of
                   (Inl err, fs'') \<Rightarrow> (Inl err, fs'', removed @ [dest])
                 | (Inr _, fs'') \<Rightarrow> copy_loop dest_dir rest fs'' (removed @ [dest])))
         else
           (case copytree item dest fs of
              (Inl err, fs') \<Rightarrow> (Inl err, fs', removed)
            | (Inr _, fs') \<Rightarrow> copy_loop dest_dir rest fs' removed))
      else
        (case copy2 item dest fs of
           (Inl err, fs') \<Rightarrow> (Inl err, fs', removed)
         | (Inr _, fs') \<Rightarrow> copy_loop dest_dir rest fs' removed))"

definition files_to_remove :: "string list" where
  "files_to_remove = [''README.md'', ''install.sh'', ''install.py'']"

text \<open>
  The scratch copy of the repository up to the point where its items are listed:
  validation of the languages, the two cleaning steps, removal of the packaging files.
\<close>

definition prepare_source ::
  "env \<Rightarrow> node \<Rightarrow> path \<Rightarrow> string list \<Rightarrow> (error + unit) \<times> node" where
  "prepare_source e fs temp_source_dir languages =
     (let lang_dir = temp_source_dir @ [''agent_instructions'', ''languages''] in
      case validate_languages fs lang_dir languages of
        Inl err \<Rightarrow> (Inl err, fs)
      | Inr _ \<Rightarrow>
          (case clean_language_files e fs temp_source_dir languages of
             (Inl err, fs1) \<Rightarrow> (Inl err, fs1)
           | (Inr _, fs1) \<Rightarrow>
               (case clean_claude_md fs1 (temp_source_dir @ [''CLAUDE.md'']) languages of
                  (Inl err, fs2) \<Rightarrow> (Inl err, fs2)
                | (Inr _, fs2) \<Rightarrow> remove_loop temp_source_dir files_to_remove fs2)))"

definition install_configuration ::
  "env \<Rightarrow> string \<Rightarrow> node \<Rightarrow> path \<Rightarrow> path \<Rightarrow> string list \<Rightarrow>
     (error + unit) \<times> node \<times> path list" where
  "install_configuration e now fs dest_dir temp_source_dir languages =
     (case prepare_source e fs temp_source_dir languages of
        (Inl err, fs3) \<Rightarrow> (Inl err, fs3, [])
      | (Inr _, fs3) \<Rightarrow>
          (case iterdir fs3 temp_source_dir of
             Inl err \<Rightarrow> (Inl err, fs3, [])
           | Inr source_items \<Rightarrow>
               (case backup_conflicting_files now fs3 dest_dir source_items of
                  (Inl err, fs4) \<Rightarrow> (Inl err, fs4, [])
                | (Inr _, fs4) \<Rightarrow> copy_loop dest_dir source_items fs4 [])))"

section \<open>User installer\<close>

definition check_safe_directory_user :: "env \<Rightarrow> path \<Rightarrow> error + unit" where
  "check_safe_directory_user e config_dir =
     (if prefix (resolve e (home e)) (resolve e config_dir) then Inr ()
      else Inl (NotInsideHome (resolve e config_dir)))"

definition backup_existing_config ::
  "env \<Rightarrow> string \<Rightarrow> node \<Rightarrow> path \<Rightarrow> (error + unit) \<times> node" where
  "backup_existing_config e now fs config_dir =
     (if \<not> exists fs config_dir then (Inr (), fs)
      else move config_dir (child (home e) (backup_name now)) fs)"

text \<open>
  \<^verbatim>\<open>git clone\<close> is outside the repository: \<open>cloned\<close> is the tree it checks out (\<open>None\<close>
  when it fails), placed at the path given, which must be free or an empty directory.
\<close>

definition git_clone :: "node option \<Rightarrow> path \<Rightarrow> node \<Rightarrow> (error + unit) \<times> node" where
  "git_clone cloned repo_dir fs =
     (case cloned of
        None \<Rightarrow> (Inl CloneFailed, fs)
      | Some tree \<Rightarrow>
          (case (lstat fs (butlast repo_dir), lstat fs repo_dir) of
             (Some (Dir _), None) \<Rightarrow> (Inr (), alter repo_dir (\<lambda>_. Some tree) fs)
           | (Some (Dir _), Some (Dir [])) \<Rightarrow> (Inr (), alter repo_dir (\<lambda>_. Some tree) fs)
           | _ \<Rightarrow> (Inl CloneFailed, fs)))"

definition install_with_git_clone ::
  "node option \<Rightarrow> node \<Rightarrow> path \<Rightarrow> (error + unit) \<times> node" where
  "install_with_git_clone cloned fs config_dir =
     (let repo_dir = config_dir @ [''instructions_repository_clone''] in
      case git_clone cloned repo_dir fs of
        (Inl err, fs1) \<Rightarrow> (Inl err, fs1)
      | (Inr _, fs1) \<Rightarrow>
          (let user_setup_dir = repo_dir @ [''claude'', ''user_setup''] in
           if \<not> exists fs1 user_setup_dir then (Inl (UserSetupDirNotFound user_setup_dir), fs1)
           else
             (let claude_md = user_setup_dir @ [''CLAUDE.md''] in
              if \<not> exists fs1 claude_md then (Inl (ManifestNotFound claude_md), fs1)
              else
                (case symlink_to (config_dir @ [''CLAUDE.md'']) claude_md fs1 of
                   (Inl err, fs2) \<Rightarrow> (Inl err, fs2)
                 | (Inr _, fs2) \<Rightarrow>
                     (let commands_dir = user_setup_dir @ [''commands''] in
                      if exists fs2 commands_dir
                      then symlink_to (config_dir @ [''commands'']) commands_dir fs2
                      else (Inr (), fs2))))))"

definition main_user :: "env \<Rightarrow> string \<Rightarrow> node option \<Rightarrow> node \<Rightarrow> (error + unit) \<times> node" where
  "main_user e now cloned fs =
     (let config_dir = home e @ [''.claude''] in
      if euid e = 0 then (Inl DoNotRunAsRoot, fs)
      else
        (case backup_existing_config e now fs config_dir of
           (Inl err, fs1) \<Rightarrow> (Inl err, fs1)
         | (Inr _, fs1) \<Rightarrow>
             (case mkdir config_dir fs1 of
                (Inl err, fs2) \<Rightarrow> (Inl err, fs2)
              | (Inr _, fs2) \<Rightarrow> install_with_git_clone cloned fs2 config_dir)))"


section \<open>Notions the statements use\<close>

text \<open>
  The language name the loop of \<^verbatim>\<open>clean_claude_md\<close> extracts from a line that contains
  the marker: \<^verbatim>\<open>parts[1].split("/")[0]\<close>.
\<close>

definition lang_part :: "string \<Rightarrow> string" where
  "lang_part line = hd (split_on ''/'' (split_on marker line ! 1))"

text \<open>
  Language selection as the specification words it: a token is a number, read as a
  1-based index into the available languages, or the name of an available language.
\<close>

definition spec_token_ok :: "string list \<Rightarrow> string \<Rightarrow> bool" where
  "spec_token_ok available t =
     (if isdigit t then 1 \<le> int_of_str t \<and> int_of_str t \<le> int (length available)
      else t \<in> set available)"

definition spec_token_language :: "string list \<Rightarrow> string \<Rightarrow> string" where
  "spec_token_language available t =
     (if isdigit t then available ! (nat (int_of_str t) - 1) else t)"

text \<open>
  ASCII text: every character is below 128. Such a text decodes, and its line boundaries,
  white space and digits are the ones modelled.
\<close>

definition ascii :: "string \<Rightarrow> bool" where
  "ascii s = list_all (\<lambda>c. (of_char c :: nat) < 128) s"



section \<open>Paths and the file system: basic facts\<close>

lemma set_parents: "set (parents p) = {q. strict_prefix q p}"
proof -
  have "strict_prefix q p \<longleftrightarrow> (\<exists>k<length p. q = take k p)" for q
  proof
    assume "strict_prefix q p"
    then obtain zs where "p = q @ zs" "zs \<noteq> []" by (auto simp: strict_prefix_def prefix_def)
    then have "length q < length p \<and> q = take (length q) p" by simp
    then show "\<exists>k<length p. q = take k p" by blast
  next
    assume "\<exists>k<length p. q = take k p"
    then obtain k where k: "k < length p" "q = take k p" by blast
    then have "prefix q p" by (simp add: take_is_prefix)
    moreover from k have "length q < length p" by simp
    ultimately show "strict_prefix q p" by (auto simp: strict_prefix_def)
  qed
  then show ?thesis by (auto simp: parents_def)
qed

lemma lstat_append:
  "lstat fs (p @ q) = (case lstat fs p of None \<Rightarrow> None | Some n \<Rightarrow> lstat n q)"
  by (induction fs p rule: lstat.induct) (auto split: option.splits)

lemma set_entry_map_of: "map_of (set_entry k v es) = (map_of es)(k := v)"
  by (cases v) (simp_all add: delete_conv' update_conv')

lemma lstat_alter_local:
  "r \<noteq> [] \<Longrightarrow> lstat (alter (p @ r) f fs) p = map_option (alter r f) (lstat fs p)"
proof (induction p arbitrary: fs)
  case Nil
  then show ?case by simp
next
  case (Cons x p)
  show ?case
  proof (cases fs)
    case (Dir es)
    show ?thesis
    proof (cases "p @ r")
      case Nil
      then show ?thesis using Cons.prems by simp
    next
      case (Cons y zs)
      then show ?thesis using Dir Cons.IH[OF Cons.prems, of "the (map_of es x)"]
        by (auto simp: update_conv' split: option.splits)
    qed
  qed (cases "p @ r"; simp)+
qed

lemma lstat_alter_other:
  "\<not> prefix p q \<Longrightarrow> \<not> prefix q p \<Longrightarrow> lstat (alter p f fs) q = lstat fs q"
proof (induction p f fs arbitrary: q rule: alter.induct)
  case (2 x f es)
  then show ?case by (cases q) (auto simp: set_entry_map_of)
next
  case (3 x y p f es)
  then show ?case by (cases q) (auto simp: update_conv' split: option.splits)
qed simp_all

lemma lstat_alter_same:
  assumes "p \<noteq> []" and "lstat fs (butlast p) = Some (Dir es)"
  shows "lstat (alter p f fs) p = f (lstat fs p)"
proof -
  obtain b x where p: "p = b @ [x]" using assms(1) by (metis append_butlast_last_id)
  have b: "lstat fs b = Some (Dir es)" using assms(2) p by simp
  have "lstat (alter p f fs) b = Some (alter [x] f (Dir es))"
    using lstat_alter_local[where p=b and r="[x]" and f=f and fs=fs] b p by simp
  then show ?thesis using b p
    by (simp add: lstat_append set_entry_map_of split: option.splits)
qed

lemma lstat_alter_below:
  assumes "p \<noteq> []" and "lstat fs (butlast p) = Some (Dir es)"
  shows "lstat (alter p f fs) (p @ r) = (case f (lstat fs p) of None \<Rightarrow> None | Some n \<Rightarrow> lstat n r)"
  using lstat_alter_same[OF assms, of f] by (simp add: lstat_append)

lemma lstat_parent_Dir:
  assumes "lstat fs p = Some n" "p \<noteq> []"
  shows "\<exists>es. lstat fs (butlast p) = Some (Dir es)"
proof -
  obtain b x where p: "p = b @ [x]" using assms(2) by (metis append_butlast_last_id)
  from assms(1) p obtain m where m: "lstat fs b = Some m" "lstat m [x] = Some n"
    by (auto simp: lstat_append split: option.splits)
  then obtain es where "m = Dir es" by (cases m) auto
  then show ?thesis using m p by simp
qed

lemma realpath_unfold:
  "realpath fs p = (case lstat fs p of Some (Symlink t) \<Rightarrow> follow 40 fs t | _ \<Rightarrow> Some p)"
  by (simp only: realpath_def follow.simps)


lemma stat_absent: "lstat fs p = None \<Longrightarrow> stat fs p = None"
  by (simp add: stat_def realpath_unfold)

lemma stat_nolink: "lstat fs p = Some n \<Longrightarrow> (\<And>t. n \<noteq> Symlink t) \<Longrightarrow> stat fs p = Some n"
  by (cases n) (auto simp add: stat_def realpath_unfold)


lemma is_safe_loop_iff:
  "is_safe_loop p roots b \<longleftrightarrow> (b \<or> (\<exists>root \<in> set roots. strict_prefix root p))"
  by (induction roots arbitrary: b) (auto simp: set_parents)

text \<open>
  Claim C1. \<^verbatim>\<open>safe_delete\<close> rejects, and leaves the file system as it was, when the
  effective user is root (whatever the path: this is checked first), when the resolved
  path has one path component or none, and when the resolved path has no temporary root
  among its proper ancestors; in the last case the error is the one of the containment
  check.
\<close>

theorem safe_delete_rejects:
  "(euid e = 0 \<longrightarrow> safe_delete e fs p ok = (Inl RunningAsRoot, fs)) \<and>
   (euid e \<noteq> 0 \<and> length (parts (resolve e p)) \<le> 1 \<longrightarrow>
      safe_delete e fs p ok = (Inl (PathTooShort (length (parts (resolve e p)))), fs)) \<and>
   (euid e \<noteq> 0 \<and> 1 < length (parts (resolve e p)) \<and>
    (\<forall>root \<in> set temp_roots. \<not> strict_prefix root (resolve e p)) \<longrightarrow>
      safe_delete e fs p ok = (Inl (NotSafeToDelete (resolve e p)), fs)) \<and>
   (euid e = 0 \<or> length (parts (resolve e p)) \<le> 1 \<or>
    (\<forall>root \<in> set temp_roots. \<not> strict_prefix root (resolve e p)) \<longrightarrow>
      (\<exists>err. safe_delete e fs p ok = (Inl err, fs)))"
  by (auto simp: safe_delete_def Let_def is_safe_loop_iff)

theorem safe_delete_rejects_witness:
  "safe_delete \<lparr>euid = 0, home = [''root''], resolve = (\<lambda>p. p)\<rparr>
     (Dir [(''tmp'', Dir [(''a'', File ''x'')])]) [''tmp'', ''a''] True
     = (Inl RunningAsRoot, Dir [(''tmp'', Dir [(''a'', File ''x'')])]) \<and>
   safe_delete \<lparr>euid = 1000, home = [''home'', ''u''], resolve = (\<lambda>p. p)\<rparr>
     (Dir [(''tmp'', Dir [(''a'', File ''x'')])]) [] True
     = (Inl (PathTooShort 1), Dir [(''tmp'', Dir [(''a'', File ''x'')])]) \<and>
   safe_delete \<lparr>euid = 1000, home = [''home'', ''u''], resolve = (\<lambda>p. p)\<rparr>
     (Dir [(''tmp'', Dir [(''a'', File ''x'')])]) [''tmp''] True
     = (Inl (NotSafeToDelete [''tmp'']), Dir [(''tmp'', Dir [(''a'', File ''x'')])])"
  using
    safe_delete_rejects[where e="\<lparr>euid = 0, home = [''root''], resolve = (\<lambda>p. p)\<rparr>"
      and fs="Dir [(''tmp'', Dir [(''a'', File ''x'')])]" and p="[''tmp'', ''a'']" and ok=True]
    safe_delete_rejects[where e="\<lparr>euid = 1000, home = [''home'', ''u''], resolve = (\<lambda>p. p)\<rparr>"
      and fs="Dir [(''tmp'', Dir [(''a'', File ''x'')])]" and p="[]" and ok=True]
    safe_delete_rejects[where e="\<lparr>euid = 1000, home = [''home'', ''u''], resolve = (\<lambda>p. p)\<rparr>"
      and fs="Dir [(''tmp'', Dir [(''a'', File ''x'')])]" and p="[''tmp'']" and ok=True]
  by (simp add: parts_def temp_roots_def)

lemma rmtree_Dir:
  "lstat fs p = Some (Dir es) \<Longrightarrow> rmtree p fs = (Inr (), alter p (\<lambda>_. None) fs)"
  by (simp add: rmtree_def)

text \<open>
  Claim C2, amended. Past the containment checks \<^verbatim>\<open>safe_delete\<close> dispatches on the entry
  at the resolved path: a directory there is removed when \<open>directory_okay\<close> is set and is
  the expected-file error otherwise; a regular file there is removed; nothing there is the
  not-found error; a special file there is the internal-consistency error. What is
  removed is the entry at the resolved path, and it is gone afterwards. The kind of the
  path given plays no part: \<^verbatim>\<open>resolve()\<close> has followed the symbolic links, so for a link
  given it is what the link leads to that is dispatched on.
\<close>

theorem safe_delete_dispatch:
  assumes "euid e \<noteq> 0"
    and "rp = resolve e p"
    and "1 < length (parts rp)"
    and "\<exists>root \<in> set temp_roots. strict_prefix root rp"
  shows "(lstat fs rp = None \<longrightarrow>
            safe_delete e fs p ok = (Inl (PathDoesNotExist rp), fs)) \<and>
         (\<forall>s. lstat fs rp = Some (File s) \<longrightarrow>
            safe_delete e fs p ok = (Inr (), alter rp (\<lambda>_. None) fs)) \<and>
         (\<forall>es. lstat fs rp = Some (Dir es) \<longrightarrow>
            safe_delete e fs p ok =
              (if ok then (Inr (), alter rp (\<lambda>_. None) fs) else (Inl (ExpectedFile rp), fs))) \<and>
         (lstat fs rp = Some Other \<longrightarrow>
            safe_delete e fs p ok = (Inl (UnidentifiedKind rp), fs)) \<and>
         (lstat fs rp \<noteq> None \<longrightarrow> lstat (alter rp (\<lambda>_. None) fs) rp = None)"
proof (intro conjI impI allI)
  have safe: "is_safe_loop rp temp_roots False" using assms(4) by (simp add: is_safe_loop_iff)
  {
    assume "lstat fs rp = None"
    then show "safe_delete e fs p ok = (Inl (PathDoesNotExist rp), fs)"
      using assms(1,2,3) safe
      by (simp add: safe_delete_def Let_def is_dir_def is_file_def is_symlink_def exists_def
          stat_absent)
  next
    fix s assume "lstat fs rp = Some (File s)"
    then show "safe_delete e fs p ok = (Inr (), alter rp (\<lambda>_. None) fs)"
      using assms(1,2,3) safe
      by (simp add: safe_delete_def Let_def is_dir_def is_file_def is_symlink_def exists_def
          stat_nolink unlink_def)
  next
    fix es assume "lstat fs rp = Some (Dir es)"
    then show "safe_delete e fs p ok =
        (if ok then (Inr (), alter rp (\<lambda>_. None) fs) else (Inl (ExpectedFile rp), fs))"
      using assms(1,2,3) safe
      by (simp add: safe_delete_def Let_def is_dir_def is_file_def is_symlink_def exists_def
          stat_nolink rmtree_def)
  next
    assume "lstat fs rp = Some Other"
    then show "safe_delete e fs p ok = (Inl (UnidentifiedKind rp), fs)"
      using assms(1,2,3) safe
      by (simp add: safe_delete_def Let_def is_dir_def is_file_def is_symlink_def exists_def
          stat_nolink)
  next
    assume "lstat fs rp \<noteq> None"
    then obtain n where n: "lstat fs rp = Some n" by auto
    moreover have ne: "rp \<noteq> []" using assms(3) by (auto simp: parts_def)
    ultimately obtain es where "lstat fs (butlast rp) = Some (Dir es)"
      using lstat_parent_Dir by blast
    then show "lstat (alter rp (\<lambda>_. None) fs) rp = None"
      using ne by (simp add: lstat_alter_same)
  }
qed

text \<open>
  The theorem at a scratch directory without links, where \<^verbatim>\<open>resolve()\<close> changes no path:
  a directory with and without \<open>directory_okay\<close>, a regular file, a special file and a
  path with nothing at it.
\<close>

theorem safe_delete_dispatch_witness:
  "safe_delete \<lparr>euid = 1000, home = [''home'', ''u''], resolve = (\<lambda>p. p)\<rparr>
     (Dir [(''tmp'', Dir [(''d'', Dir [(''a'', File ''x'')]), (''f'', File ''y''), (''o'', Other)])])
     [''tmp'', ''d''] True
     = (Inr (), Dir [(''tmp'', Dir [(''f'', File ''y''), (''o'', Other)])]) \<and>
   safe_delete \<lparr>euid = 1000, home = [''home'', ''u''], resolve = (\<lambda>p. p)\<rparr>
     (Dir [(''tmp'', Dir [(''d'', Dir [(''a'', File ''x'')]), (''f'', File ''y''), (''o'', Other)])])
     [''tmp'', ''d''] False
     = (Inl (ExpectedFile [''tmp'', ''d'']),
        Dir [(''tmp'', Dir [(''d'', Dir [(''a'', File ''x'')]), (''f'', File ''y''), (''o'', Other)])]) \<and>
   safe_delete \<lparr>euid = 1000, home = [''home'', ''u''], resolve = (\<lambda>p. p)\<rparr>
     (Dir [(''tmp'', Dir [(''d'', Dir [(''a'', File ''x'')]), (''f'', File ''y''), (''o'', Other)])])
     [''tmp'', ''f''] False
     = (Inr (), Dir [(''tmp'', Dir [(''d'', Dir [(''a'', File ''x'')]), (''o'', Other)])]) \<and>
   safe_delete \<lparr>euid = 1000, home = [''home'', ''u''], resolve = (\<lambda>p. p)\<rparr>
     (Dir [(''tmp'', Dir [(''d'', Dir [(''a'', File ''x'')]), (''f'', File ''y''), (''o'', Other)])])
     [''tmp'', ''o''] True
     = (Inl (UnidentifiedKind [''tmp'', ''o'']),
        Dir [(''tmp'', Dir [(''d'', Dir [(''a'', File ''x'')]), (''f'', File ''y''), (''o'', Other)])]) \<and>
   safe_delete \<lparr>euid = 1000, home = [''home'', ''u''], resolve = (\<lambda>p. p)\<rparr>
     (Dir [(''tmp'', Dir [(''d'', Dir [(''a'', File ''x'')]), (''f'', File ''y''), (''o'', Other)])])
     [''tmp'', ''gone''] True
     = (Inl (PathDoesNotExist [''tmp'', ''gone'']),
        Dir [(''tmp'', Dir [(''d'', Dir [(''a'', File ''x'')]), (''f'', File ''y''), (''o'', Other)])])"
proof -
  let ?e = "\<lparr>euid = 1000, home = [''home'', ''u''], resolve = (\<lambda>p. p)\<rparr>"
  let ?fs = "Dir [(''tmp'', Dir [(''d'', Dir [(''a'', File ''x'')]), (''f'', File ''y''), (''o'', Other)])]"
  have h1: "euid ?e \<noteq> 0" by simp
  have h2: "q = resolve ?e q" for q by simp
  have h3: "1 < length (parts [''tmp'', n])" for n by (simp add: parts_def)
  have h4: "\<exists>root \<in> set temp_roots. strict_prefix root [''tmp'', n]" for n
    by (simp add: temp_roots_def)
  note t = safe_delete_dispatch[OF h1 h2 h3 h4, where fs = ?fs]
  show ?thesis
    using t[of "''d''" True] t[of "''d''" False] t[of "''f''" False] t[of "''o''" True]
      t[of "''gone''" True]
    by simp
qed

text \<open>
  Claim C2 as stated fails for a symbolic link: \<^verbatim>\<open>/tmp/l\<close> below is a link to the
  directory \<^verbatim>\<open>/tmp/d\<close>, which is what \<^verbatim>\<open>resolve()\<close> returns for it. Without
  \<open>directory_okay\<close> the call fails with the expected-file error; with it the directory
  is removed and the link stays.
\<close>

theorem safe_delete_link_to_directory:
  "lstat (Dir [(''tmp'', Dir [(''d'', Dir [(''a'', File ''x'')]), (''l'', Symlink [''tmp'', ''d''])])])
     [''tmp'', ''l''] = Some (Symlink [''tmp'', ''d'']) \<and>
   realpath (Dir [(''tmp'', Dir [(''d'', Dir [(''a'', File ''x'')]), (''l'', Symlink [''tmp'', ''d''])])])
     [''tmp'', ''l''] = Some [''tmp'', ''d''] \<and>
   safe_delete
     \<lparr>euid = 1000, home = [''home'', ''u''],
      resolve = (\<lambda>p. if p = [''tmp'', ''l''] then [''tmp'', ''d''] else p)\<rparr>
     (Dir [(''tmp'', Dir [(''d'', Dir [(''a'', File ''x'')]), (''l'', Symlink [''tmp'', ''d''])])])
     [''tmp'', ''l''] False
     = (Inl (ExpectedFile [''tmp'', ''d'']),
        Dir [(''tmp'', Dir [(''d'', Dir [(''a'', File ''x'')]), (''l'', Symlink [''tmp'', ''d''])])]) \<and>
   safe_delete
     \<lparr>euid = 1000, home = [''home'', ''u''],
      resolve = (\<lambda>p. if p = [''tmp'', ''l''] then [''tmp'', ''d''] else p)\<rparr>
     (Dir [(''tmp'', Dir [(''d'', Dir [(''a'', File ''x'')]), (''l'', Symlink [''tmp'', ''d''])])])
     [''tmp'', ''l''] True
     = (Inr (), Dir [(''tmp'', Dir [(''l'', Symlink [''tmp'', ''d''])])])"
  by code_simp

lemma check_excluded_Inl:
  "check_excluded e t xs = Inl err \<Longrightarrow> \<exists>x \<in> set xs. err = UnsafeDirectory x \<and> t = resolve e x"
  by (induction xs) (auto split: if_splits)

lemma check_excluded_Inr: "check_excluded e t xs = Inr () \<longleftrightarrow> t \<notin> resolve e ` set xs"
  by (induction xs) auto

lemma set_excluded_dirs:
  "set (excluded_dirs e) =
     {home e, home e @ [''Documents''], home e @ [''Desktop''], home e @ [''Downloads''],
      [''tmp''], [''var''], [''Users''], [''home''], [''System''], [''usr''], [''opt'']}"
  unfolding excluded_dirs_def by simp

lemma check_safe_directory_Inr:
  "check_safe_directory e target_dir = Inr () \<longleftrightarrow>
     resolve e target_dir \<notin> resolve e ` set (excluded_dirs e)"
  unfolding check_safe_directory_def check_excluded_Inr ..

lemma check_safe_directory_Inl:
  "(\<exists>excluded. check_safe_directory e target_dir = Inl (UnsafeDirectory excluded) \<and>
        resolve e target_dir = resolve e excluded) \<longleftrightarrow>
     resolve e target_dir \<in> resolve e ` set (excluded_dirs e)"
proof
  assume "\<exists>excluded. check_safe_directory e target_dir = Inl (UnsafeDirectory excluded) \<and>
      resolve e target_dir = resolve e excluded"
  then have "check_safe_directory e target_dir \<noteq> Inr ()" by auto
  then show "resolve e target_dir \<in> resolve e ` set (excluded_dirs e)"
    using check_safe_directory_Inr by blast
next
  assume "resolve e target_dir \<in> resolve e ` set (excluded_dirs e)"
  then have "check_safe_directory e target_dir \<noteq> Inr ()"
    using check_safe_directory_Inr by blast
  then obtain err where err: "check_safe_directory e target_dir = Inl err"
    by (cases "check_safe_directory e target_dir") auto
  then show "\<exists>excluded. check_safe_directory e target_dir = Inl (UnsafeDirectory excluded) \<and>
      resolve e target_dir = resolve e excluded"
    using check_excluded_Inl[of e "resolve e target_dir" "excluded_dirs e" err]
    by (auto simp: check_safe_directory_def)
qed

text \<open>
  Claim C3. \<^verbatim>\<open>check_safe_directory\<close> of the project installer fails exactly when the
  resolved target equals the resolved form of an entry of the deny-list, and names such an
  entry; it succeeds on every other target, a subdirectory of \<^verbatim>\<open>/usr\<close> included.
\<close>

theorem check_safe_directory_denylist:
  "(check_safe_directory e target_dir = Inr () \<longleftrightarrow>
      resolve e target_dir \<notin> resolve e `
        {home e, home e @ [''Documents''], home e @ [''Desktop''], home e @ [''Downloads''],
         [''tmp''], [''var''], [''Users''], [''home''], [''System''], [''usr''], [''opt'']}) \<and>
   ((\<exists>excluded. check_safe_directory e target_dir = Inl (UnsafeDirectory excluded) \<and>
        resolve e target_dir = resolve e excluded) \<longleftrightarrow>
      resolve e target_dir \<in> resolve e `
        {home e, home e @ [''Documents''], home e @ [''Desktop''], home e @ [''Downloads''],
         [''tmp''], [''var''], [''Users''], [''home''], [''System''], [''usr''], [''opt'']}) \<and>
   check_safe_directory \<lparr>euid = 1000, home = [''home'', ''u''], resolve = (\<lambda>p. p)\<rparr>
     [''usr'', ''local''] = Inr () \<and>
   check_safe_directory \<lparr>euid = 1000, home = [''home'', ''u''], resolve = (\<lambda>p. p)\<rparr>
     [''usr''] = Inl (UnsafeDirectory [''usr''])"
proof (intro conjI)
  show "check_safe_directory e target_dir = Inr () \<longleftrightarrow>
      resolve e target_dir \<notin> resolve e `
        {home e, home e @ [''Documents''], home e @ [''Desktop''], home e @ [''Downloads''],
         [''tmp''], [''var''], [''Users''], [''home''], [''System''], [''usr''], [''opt'']}"
    using check_safe_directory_Inr[of e target_dir] by (simp only: set_excluded_dirs)
  show "(\<exists>excluded. check_safe_directory e target_dir = Inl (UnsafeDirectory excluded) \<and>
        resolve e target_dir = resolve e excluded) \<longleftrightarrow>
      resolve e target_dir \<in> resolve e `
        {home e, home e @ [''Documents''], home e @ [''Desktop''], home e @ [''Downloads''],
         [''tmp''], [''var''], [''Users''], [''home''], [''System''], [''usr''], [''opt'']}"
    using check_safe_directory_Inl[of e target_dir] by (simp only: set_excluded_dirs)
  show "check_safe_directory \<lparr>euid = 1000, home = [''home'', ''u''], resolve = (\<lambda>p. p)\<rparr>
     [''usr'', ''local''] = Inr ()"
    by (simp add: check_safe_directory_def excluded_dirs_def)
  show "check_safe_directory \<lparr>euid = 1000, home = [''home'', ''u''], resolve = (\<lambda>p. p)\<rparr>
     [''usr''] = Inl (UnsafeDirectory [''usr''])"
    by (simp add: check_safe_directory_def excluded_dirs_def)
qed


lemma split_on_not_Nil: "split_on sep s \<noteq> []"
  by (induction sep s rule: split_on.induct) (auto split: list.splits)

lemma split_on_contains:
  "contains sep s \<Longrightarrow> sep \<noteq> [] \<Longrightarrow> 1 < length (split_on sep s)"
proof (induction sep s rule: split_on.induct)
  case (1 sep)
  then show ?case by simp
next
  case (2 sep c cs)
  show ?case
  proof (cases "prefix sep (c # cs)")
    case True
    then show ?thesis using 2(4) split_on_not_Nil[of sep "drop (length sep - 1) cs"]
      by (cases "split_on sep (drop (length sep - 1) cs)") auto
  next
    case False
    then have "contains sep cs" using 2(3) by simp
    then have "1 < length (split_on sep cs)" using 2(2) False 2(4) by simp
    then show ?thesis using False by (auto split: list.splits)
  qed
qed

lemma filter_lines_eq:
  "filter_lines keep ls acc =
     acc @ filter (\<lambda>l. contains marker l \<longrightarrow> lang_part l \<in> set keep) ls"
proof (induction ls arbitrary: acc)
  case Nil
  then show ?case by simp
next
  case (Cons l ls)
  have "contains marker l \<Longrightarrow> 1 < length (split_on marker l)"
    by (rule split_on_contains) (simp_all add: marker_def)
  then show ?case using Cons.IH by (auto simp: Let_def lang_part_def)
qed

lemma read_text_File: "lstat fs p = Some (File s) \<Longrightarrow> read_text fs p = Inr s"
  by (simp add: read_text_def stat_nolink)

lemma write_text_File:
  "lstat fs p = Some (File s) \<Longrightarrow> p \<noteq> [] \<Longrightarrow>
     write_text p t fs = (Inr (), alter p (\<lambda>_. Some (File t)) fs)"
  using lstat_parent_Dir[of fs p "File s"]
  by (auto simp: write_text_def realpath_unfold)

text \<open>
  Claim C5. For a manifest that is a regular file of ASCII text and languages to keep that
  are not empty, \<^verbatim>\<open>clean_claude_md\<close> keeps, in their order, the lines without the marker
  and the lines with the marker whose language name is one to keep, drops every other
  line, and writes the kept lines back, joined by line feeds and ended by one.
\<close>

theorem clean_claude_md_filters:
  assumes "keep_languages \<noteq> []" and "claude_md_path \<noteq> []"
    and "lstat fs claude_md_path = Some (File s)"
    and "ascii s"
  shows "filter_lines keep_languages (splitlines s) [] =
           filter (\<lambda>line. contains marker line \<longrightarrow> lang_part line \<in> set keep_languages)
             (splitlines s) \<and>
         clean_claude_md fs claude_md_path keep_languages =
           (Inr (),
            alter claude_md_path
              (\<lambda>_. Some (File
                 (join_str [CHR 0x0A]
                    (filter (\<lambda>line. contains marker line \<longrightarrow> lang_part line \<in> set keep_languages)
                       (splitlines s)) @ [CHR 0x0A])))
              fs) \<and>
         lstat (snd (clean_claude_md fs claude_md_path keep_languages)) claude_md_path =
           Some (File
             (join_str [CHR 0x0A]
                (filter (\<lambda>line. contains marker line \<longrightarrow> lang_part line \<in> set keep_languages)
                   (splitlines s)) @ [CHR 0x0A]))"
proof -
  obtain es where es: "lstat fs (butlast claude_md_path) = Some (Dir es)"
    using lstat_parent_Dir[OF assms(3,2)] by blast
  have c: "clean_claude_md fs claude_md_path keep_languages =
           (Inr (),
            alter claude_md_path
              (\<lambda>_. Some (File
                 (join_str [CHR 0x0A]
                    (filter (\<lambda>line. contains marker line \<longrightarrow> lang_part line \<in> set keep_languages)
                       (splitlines s)) @ [CHR 0x0A])))
              fs)"
    using assms(1,2,3)
    by (simp add: clean_claude_md_def is_file_def stat_nolink read_text_File write_text_File
        filter_lines_eq)
  show ?thesis
    unfolding c using assms(2) es by (simp add: filter_lines_eq lstat_alter_same)
qed


theorem clean_claude_md_filters_witness:
  "clean_claude_md
     (Dir [(''tmp'', Dir [(''CLAUDE.md'',
        File (''@agent_instructions/languages/python/x.md'' @ [CHR 0x0A] @
              ''@agent_instructions/languages/go/y.md'' @ [CHR 0x0A] @
              ''plain text'' @ [CHR 0x0A]))])])
     [''tmp'', ''CLAUDE.md''] [''python'']
   = (Inr (),
      Dir [(''tmp'', Dir [(''CLAUDE.md'',
        File (''@agent_instructions/languages/python/x.md'' @ [CHR 0x0A] @
              ''plain text'' @ [CHR 0x0A]))])])"
proof -
  let ?t = "''@agent_instructions/languages/python/x.md'' @ [CHR 0x0A] @
              ''@agent_instructions/languages/go/y.md'' @ [CHR 0x0A] @
              ''plain text'' @ [CHR 0x0A]"
  let ?fs = "Dir [(''tmp'', Dir [(''CLAUDE.md'', File ?t)])]"
  have s: "splitlines ?t =
     [''@agent_instructions/languages/python/x.md'', ''@agent_instructions/languages/go/y.md'',
      ''plain text'']"
    by code_simp
  have k: "filter (\<lambda>line. contains marker line \<longrightarrow> lang_part line \<in> set [''python''])
     [''@agent_instructions/languages/python/x.md'', ''@agent_instructions/languages/go/y.md'',
      ''plain text''] = [''@agent_instructions/languages/python/x.md'', ''plain text'']"
    by code_simp
  have h1: "[''python''] \<noteq> []" and h2: "[''tmp'', ''CLAUDE.md''] \<noteq> []" by simp_all
  have h3: "lstat ?fs [''tmp'', ''CLAUDE.md''] = Some (File ?t)" by simp
  have h4: "ascii ?t" by code_simp
  have "clean_claude_md ?fs [''tmp'', ''CLAUDE.md''] [''python''] =
      (Inr (), alter [''tmp'', ''CLAUDE.md'']
         (\<lambda>_. Some (File (join_str [CHR 0x0A]
             [''@agent_instructions/languages/python/x.md'', ''plain text''] @ [CHR 0x0A]))) ?fs)"
    using clean_claude_md_filters[OF h1 h2 h3 h4] unfolding s k by (rule conjunct1[OF conjunct2])
  then show ?thesis by simp
qed

lemma select_loop_append:
  "select_loop av ps acc = (case select_loop av ps [] of Inl e \<Rightarrow> Inl e | Inr r \<Rightarrow> Inr (acc @ r))"
proof (induction ps arbitrary: acc)
  case Nil
  then show ?case by simp
next
  case (Cons a ps)
  show ?case
    using Cons.IH[of "acc @ [x]" for x] Cons.IH[of "[x]" for x]
    by (auto simp: Let_def split: sum.splits)
qed

lemma select_loop_find:
  "select_loop av ts [] =
     (case find (\<lambda>t. \<not> spec_token_ok av t) ts of
        Some t \<Rightarrow> Inl (if isdigit t then InvalidNumber t else UnknownLanguage t)
      | None \<Rightarrow> Inr (map (spec_token_language av) ts))"
proof (induction ts)
  case Nil
  then show ?case by simp
next
  case (Cons t ts)
  have n: "nat (int_of_str t - 1) = nat (int_of_str t) - 1" by simp
  show ?case
    using Cons.IH select_loop_append[of av ts "[x]" for x]
    by (auto simp: Let_def spec_token_ok_def spec_token_language_def n split: sum.splits option.splits)
qed

lemma remdups_snoc: "remdups (ys @ [x]) = remdups (filter (\<lambda>y. y \<noteq> x) ys) @ [x]"
  by (induction ys) auto

lemma unique_loop_eq:
  "unique_loop xs seen acc = acc @ rev (remdups (rev (filter (\<lambda>x. x \<notin> seen) xs)))"
proof (induction xs arbitrary: seen acc)
  case Nil
  then show ?case by simp
next
  case (Cons x xs)
  show ?case
  proof (cases "x \<in> seen")
    case True
    then show ?thesis using Cons.IH by simp
  next
    case False
    have "remdups (rev (filter (\<lambda>y. y \<notin> seen) xs) @ [x]) =
        remdups (filter (\<lambda>y. y \<noteq> x) (rev (filter (\<lambda>y. y \<notin> seen) xs))) @ [x]"
      by (rule remdups_snoc)
    also have "filter (\<lambda>y. y \<noteq> x) (rev (filter (\<lambda>y. y \<notin> seen) xs)) =
        rev (filter (\<lambda>y. y \<notin> insert x seen) xs)"
      by (simp add: rev_filter[symmetric] conj_commute del: rev_filter)
    finally have "rev (remdups (rev (filter (\<lambda>y. y \<notin> seen) xs) @ [x])) =
        x # rev (remdups (rev (filter (\<lambda>y. y \<notin> insert x seen) xs)))"
      by simp
    then show ?thesis using False Cons.IH by simp
  qed
qed

lemma split_ws_loop_snoc:
  "is_space c \<Longrightarrow> split_ws_loop cur (s @ [c]) = split_ws_loop cur s"
  by (induction s arbitrary: cur) auto

lemma split_ws_loop_rstrip:
  "split_ws_loop cur (rev (dropWhile is_space (rev s))) = split_ws_loop cur s"
  by (induction s rule: rev_induct) (auto simp: split_ws_loop_snoc)

lemma split_ws_loop_lstrip:
  "split_ws_loop [] (dropWhile is_space s) = split_ws_loop [] s"
  by (induction s) auto

lemma split_ws_strip: "split_ws (strip s) = split_ws s"
  by (simp add: split_ws_def strip_def split_ws_loop_rstrip split_ws_loop_lstrip)

lemma split_ws_loop_Nil:
  "split_ws_loop cur s = [] \<longleftrightarrow> cur = [] \<and> (\<forall>c \<in> set s. is_space c)"
  by (induction s arbitrary: cur) auto

lemma all_dropWhile: "(\<forall>x \<in> set (dropWhile P s). P x) \<longleftrightarrow> (\<forall>x \<in> set s. P x)"
  by (induction s) auto

lemma strip_Nil: "strip s = [] \<longleftrightarrow> split_ws s = []"
  by (simp add: strip_def split_ws_def split_ws_loop_Nil all_dropWhile)

lemma choose_languages_eq:
  "choose_languages_interactively available line =
     (let tokens = split_ws line in
      if tokens = [] then Inl NoLanguagesSelected
      else
        (case find (\<lambda>t. \<not> spec_token_ok available t) tokens of
           Some t \<Rightarrow> Inl (if isdigit t then InvalidNumber t else UnknownLanguage t)
         | None \<Rightarrow> Inr (rev (remdups (rev (map (spec_token_language available) tokens))))))"
  by (simp add: choose_languages_interactively_def Let_def strip_Nil split_ws_strip
      select_loop_find unique_loop_eq split: option.splits)

text \<open>
  Claim C6. For a line of ASCII text of at most 4300 characters,
  \<^verbatim>\<open>choose_languages_interactively\<close> takes the tokens of the line that white space
  separates; with no token it fails; the first token that is neither a number within
  \<open>1..length available\<close> nor an available name makes it fail, with the invalid-number
  error for a number and the unknown-language error otherwise; else the result is the
  languages the tokens select, each kept at its first occurrence. The examples of the
  specification follow.
\<close>

theorem choose_languages_interactively_spec:
  "(ascii line \<and> length line \<le> 4300 \<longrightarrow>
    choose_languages_interactively available line =
     (let tokens = split_ws line in
      if tokens = [] then Inl NoLanguagesSelected
      else
        (case find (\<lambda>t. \<not> spec_token_ok available t) tokens of
           Some t \<Rightarrow> Inl (if isdigit t then InvalidNumber t else UnknownLanguage t)
         | None \<Rightarrow> Inr (rev (remdups (rev (map (spec_token_language available) tokens))))))) \<and>
   choose_languages_interactively [''python'', ''go'', ''rust''] ''1 3'' = Inr [''python'', ''rust''] \<and>
   choose_languages_interactively [''python'', ''go'', ''rust''] ''python python go'' =
     Inr [''python'', ''go''] \<and>
   choose_languages_interactively [''python'', ''go'', ''rust''] ''4'' = Inl (InvalidNumber ''4'') \<and>
   choose_languages_interactively [''python'', ''go'', ''rust''] ''java'' =
     Inl (UnknownLanguage ''java'') \<and>
   choose_languages_interactively [''python'', ''go'', ''rust''] [] = Inl NoLanguagesSelected"
proof (intro conjI)
  show "ascii line \<and> length line \<le> 4300 \<longrightarrow>
    choose_languages_interactively available line =
     (let tokens = split_ws line in
      if tokens = [] then Inl NoLanguagesSelected
      else
        (case find (\<lambda>t. \<not> spec_token_ok available t) tokens of
           Some t \<Rightarrow> Inl (if isdigit t then InvalidNumber t else UnknownLanguage t)
         | None \<Rightarrow> Inr (rev (remdups (rev (map (spec_token_language available) tokens))))))"
    using choose_languages_eq by blast
qed code_simp+

text \<open>
  The theorem at a line that names the second language by its number, twice, and the
  third by its name.
\<close>

theorem choose_languages_interactively_spec_witness:
  "ascii ''2 rust 2'' \<and> length ''2 rust 2'' \<le> 4300 \<and>
   split_ws ''2 rust 2'' = [''2'', ''rust'', ''2''] \<and>
   choose_languages_interactively [''python'', ''go'', ''rust''] ''2 rust 2'' = Inr [''go'', ''rust'']"
proof -
  have h: "ascii ''2 rust 2'' \<and> length ''2 rust 2'' \<le> 4300" by code_simp
  have t: "split_ws ''2 rust 2'' = [''2'', ''rust'', ''2'']" by code_simp
  have f: "find (\<lambda>t. \<not> spec_token_ok [''python'', ''go'', ''rust''] t) [''2'', ''rust'', ''2''] = None"
    by code_simp
  have m: "map (spec_token_language [''python'', ''go'', ''rust'']) [''2'', ''rust'', ''2''] =
      [''go'', ''rust'', ''go'']"
    by code_simp
  have "choose_languages_interactively [''python'', ''go'', ''rust''] ''2 rust 2'' =
      Inr (rev (remdups (rev [''go'', ''rust'', ''go''])))"
    using choose_languages_interactively_spec[THEN conjunct1, THEN mp, OF h,
        of "[''python'', ''go'', ''rust'']"]
    unfolding Let_def t f m by simp
  then show ?thesis using h t by simp
qed


text \<open>
  Claim C7 (not met by the code). \<^verbatim>\<open>check_safe_directory\<close> of the user installer does
  accept exactly the paths that resolve into the home directory, but \<^verbatim>\<open>main\<close> never
  calls it: how paths resolve has no influence on the run, and with
  \<^verbatim>\<open>~/.claude\<close> a link to a directory outside the home directory the validator would
  reject the destination while the run succeeds.
\<close>

theorem main_user_skips_validator:
  "(check_safe_directory_user e config_dir = Inr () \<longleftrightarrow>
      prefix (resolve e (home e)) (resolve e config_dir)) \<and>
   main_user (e\<lparr>resolve := r\<rparr>) now cloned fs = main_user e now cloned fs \<and>
   check_safe_directory_user
     \<lparr>euid = 1000, home = [''home'', ''u''],
      resolve = (\<lambda>p. if p = [''home'', ''u'', ''.claude''] then [''srv'', ''cfg''] else p)\<rparr>
     [''home'', ''u'', ''.claude''] = Inl (NotInsideHome [''srv'', ''cfg'']) \<and>
   main_user
     \<lparr>euid = 1000, home = [''home'', ''u''],
      resolve = (\<lambda>p. if p = [''home'', ''u'', ''.claude''] then [''srv'', ''cfg''] else p)\<rparr>
     ''20250914_120000''
     (Some (Dir [(''claude'', Dir [(''user_setup'', Dir [(''CLAUDE.md'', File ''text'')])])]))
     (Dir [(''home'', Dir [(''u'', Dir [(''.claude'', Symlink [''srv'', ''cfg''])])]),
           (''srv'', Dir [(''cfg'', Dir [])])])
   = (Inr (),
      Dir [(''home'', Dir [(''u'', Dir [
             (''.claude_backup_20250914_120000'', Symlink [''srv'', ''cfg'']),
             (''.claude'', Dir [
                (''instructions_repository_clone'',
                 Dir [(''claude'', Dir [(''user_setup'', Dir [(''CLAUDE.md'', File ''text'')])])]),
                (''CLAUDE.md'',
                 Symlink [''home'', ''u'', ''.claude'', ''instructions_repository_clone'',
                          ''claude'', ''user_setup'', ''CLAUDE.md''])])])]),
           (''srv'', Dir [(''cfg'', Dir [])])])"
proof (intro conjI)
  show "check_safe_directory_user e config_dir = Inr () \<longleftrightarrow>
      prefix (resolve e (home e)) (resolve e config_dir)"
    by (simp add: check_safe_directory_user_def)
  show "main_user (e\<lparr>resolve := r\<rparr>) now cloned fs = main_user e now cloned fs"
    by (simp add: main_user_def backup_existing_config_def Let_def)
qed code_simp+

lemma not_prefix_sibling: "a \<noteq> b \<Longrightarrow> \<not> prefix (d @ [a]) (d @ [b] @ r)"
  by simp

lemma lstat_alter_sibling:
  "a \<noteq> b \<Longrightarrow> lstat (alter (d @ [a]) f fs) (d @ [b]) = lstat fs (d @ [b])"
  by (rule lstat_alter_other) simp_all

lemma lstat_alter_parent_Dir:
  "lstat fs d = Some (Dir es) \<Longrightarrow> \<exists>es'. lstat (alter (d @ [a]) f fs) d = Some (Dir es')"
  using lstat_alter_local[where p=d and r="[a]" and f=f and fs=fs] by simp

lemma lstat_child_absent:
  "lstat fs d = Some (Dir es) \<Longrightarrow> map_of es a = None \<Longrightarrow> lstat fs (d @ [a]) = None"
  by (simp add: lstat_append)

text \<open>
  Claim C8, amended. After the clone into a fresh configuration directory the
  installation fails when the user-setup folder or the manifest is missing in the clone;
  otherwise it links \<^verbatim>\<open>CLAUDE.md\<close> in the configuration directory to the manifest of the
  clone and, when the clone has a commands folder, \<^verbatim>\<open>commands\<close> to that folder; a
  missing commands folder is no error, its link is left out.
\<close>

theorem install_with_git_clone_links:
  assumes "lstat fs config_dir = Some (Dir [])"
    and "repo_dir = config_dir @ [''instructions_repository_clone'']"
    and "user_setup_dir = repo_dir @ [''claude'', ''user_setup'']"
    and "fs1 = alter repo_dir (\<lambda>_. Some tree) fs"
    and "fs2 = alter (config_dir @ [''CLAUDE.md''])
                 (\<lambda>_. Some (Symlink (user_setup_dir @ [''CLAUDE.md'']))) fs1"
    and "fs3 = alter (config_dir @ [''commands''])
                 (\<lambda>_. Some (Symlink (user_setup_dir @ [''commands'']))) fs2"
  shows "install_with_git_clone (Some tree) fs config_dir =
      (if \<not> exists fs1 user_setup_dir then (Inl (UserSetupDirNotFound user_setup_dir), fs1)
       else if \<not> exists fs1 (user_setup_dir @ [''CLAUDE.md''])
       then (Inl (ManifestNotFound (user_setup_dir @ [''CLAUDE.md''])), fs1)
       else if exists fs2 (user_setup_dir @ [''commands'']) then (Inr (), fs3)
       else (Inr (), fs2)) \<and>
     lstat fs2 (config_dir @ [''CLAUDE.md'']) = Some (Symlink (user_setup_dir @ [''CLAUDE.md''])) \<and>
     lstat fs2 (config_dir @ [''commands'']) = None \<and>
     lstat fs3 (config_dir @ [''CLAUDE.md'']) = Some (Symlink (user_setup_dir @ [''CLAUDE.md''])) \<and>
     lstat fs3 (config_dir @ [''commands'']) = Some (Symlink (user_setup_dir @ [''commands'']))"
proof -
  let ?R = "''instructions_repository_clone''"
  have r0: "lstat fs repo_dir = None"
    using assms(1,2) by (simp add: lstat_child_absent)
  have c1: "\<exists>es. lstat fs1 config_dir = Some (Dir es)"
    unfolding assms(4,2) using assms(1) by (rule lstat_alter_parent_Dir)
  have l1: "lstat fs1 (config_dir @ [''CLAUDE.md'']) = None"
    unfolding assms(4,2) using assms(1)
    by (simp add: lstat_alter_sibling lstat_child_absent)
  have m1: "lstat fs1 (config_dir @ [''commands'']) = None"
    unfolding assms(4,2) using assms(1)
    by (simp add: lstat_alter_sibling lstat_child_absent)
  have c2: "\<exists>es. lstat fs2 config_dir = Some (Dir es)"
    unfolding assms(5) using c1 lstat_alter_parent_Dir by blast
  have l2: "lstat fs2 (config_dir @ [''CLAUDE.md'']) = Some (Symlink (user_setup_dir @ [''CLAUDE.md'']))"
    unfolding assms(5) using c1 by (auto simp: lstat_alter_same)
  have m2: "lstat fs2 (config_dir @ [''commands'']) = None"
    unfolding assms(5) using m1 by (simp add: lstat_alter_sibling)
  have l3: "lstat fs3 (config_dir @ [''CLAUDE.md'']) = Some (Symlink (user_setup_dir @ [''CLAUDE.md'']))"
    unfolding assms(6) using l2 by (simp add: lstat_alter_sibling)
  have m3: "lstat fs3 (config_dir @ [''commands'']) = Some (Symlink (user_setup_dir @ [''commands'']))"
    unfolding assms(6) using c2 by (auto simp: lstat_alter_same)
  have g: "git_clone (Some tree) repo_dir fs = (Inr (), fs1)"
    using assms(1,2,4) r0 by (simp add: git_clone_def)
  have s1: "symlink_to (config_dir @ [''CLAUDE.md'']) (user_setup_dir @ [''CLAUDE.md'']) fs1 = (Inr (), fs2)"
    using l1 c1 assms(5) by (auto simp: symlink_to_def)
  have s2: "symlink_to (config_dir @ [''commands'']) (user_setup_dir @ [''commands'']) fs2 = (Inr (), fs3)"
    using m2 c2 assms(6) by (auto simp: symlink_to_def)
  have "install_with_git_clone (Some tree) fs config_dir =
      (if \<not> exists fs1 user_setup_dir then (Inl (UserSetupDirNotFound user_setup_dir), fs1)
       else if \<not> exists fs1 (user_setup_dir @ [''CLAUDE.md''])
       then (Inl (ManifestNotFound (user_setup_dir @ [''CLAUDE.md''])), fs1)
       else if exists fs2 (user_setup_dir @ [''commands'']) then (Inr (), fs3)
       else (Inr (), fs2))"
    using g s1 s2 assms(2,3) by (simp add: install_with_git_clone_def Let_def)
  then show ?thesis using l2 m2 l3 m3 by simp
qed

theorem install_with_git_clone_links_witness:
  "install_with_git_clone
     (Some (Dir [(''claude'', Dir [(''user_setup'',
        Dir [(''CLAUDE.md'', File ''text''), (''commands'', Dir [])])])]))
     (Dir [(''home'', Dir [(''u'', Dir [(''.claude'', Dir [])])])])
     [''home'', ''u'', ''.claude'']
   = (Inr (),
      Dir [(''home'', Dir [(''u'', Dir [
             (''.claude'', Dir [
                (''instructions_repository_clone'',
                 Dir [(''claude'', Dir [(''user_setup'',
                   Dir [(''CLAUDE.md'', File ''text''), (''commands'', Dir [])])])]),
                (''CLAUDE.md'',
                 Symlink [''home'', ''u'', ''.claude'', ''instructions_repository_clone'',
                          ''claude'', ''user_setup'', ''CLAUDE.md'']),
                (''commands'',
                 Symlink [''home'', ''u'', ''.claude'', ''instructions_repository_clone'',
                          ''claude'', ''user_setup'', ''commands''])])])])])"
proof -
  have h: "lstat (Dir [(''home'', Dir [(''u'', Dir [(''.claude'', Dir [])])])])
             [''home'', ''u'', ''.claude''] = Some (Dir [])"
    by simp
  show ?thesis
    using install_with_git_clone_links[OF h refl refl refl refl refl,
        of "Dir [(''claude'', Dir [(''user_setup'',
        Dir [(''CLAUDE.md'', File ''text''), (''commands'', Dir [])])])]"]
    by (simp add: exists_def stat_def realpath_unfold)
qed


text \<open>
  Claim C8 as stated fails: the clone below has the manifest and no commands folder, and
  the installation succeeds, creating the one link.
\<close>

theorem install_with_git_clone_no_commands:
  "install_with_git_clone
     (Some (Dir [(''claude'', Dir [(''user_setup'', Dir [(''CLAUDE.md'', File ''text'')])])]))
     (Dir [(''home'', Dir [(''u'', Dir [(''.claude'', Dir [])])])])
     [''home'', ''u'', ''.claude'']
   = (Inr (),
      Dir [(''home'', Dir [(''u'', Dir [
             (''.claude'', Dir [
                (''instructions_repository_clone'',
                 Dir [(''claude'', Dir [(''user_setup'', Dir [(''CLAUDE.md'', File ''text'')])])]),
                (''CLAUDE.md'',
                 Symlink [''home'', ''u'', ''.claude'', ''instructions_repository_clone'',
                          ''claude'', ''user_setup'', ''CLAUDE.md''])])])])])"
  by code_simp
































text \<open>
  Claim C10 (not met by the code). The copy loop removes the destination counterpart of
  a directory of the bundle when that exists. The entries that collided were moved aside
  before, so what the loop can still find is an entry made since: the backup directory,
  when the bundle holds a directory with its name. In the run below the \<^verbatim>\<open>CLAUDE.md\<close>
  of the destination is moved into the backup directory; the copy loop then calls
  \<^verbatim>\<open>shutil.rmtree\<close> on the backup directory, which deletes the file, and puts the
  directory of the bundle in its place. The run succeeds; the last component of the
  result lists the paths \<^verbatim>\<open>shutil.rmtree\<close> was called on.
\<close>

theorem install_configuration_rmtree_backup:
  "install_configuration \<lparr>euid = 1000, home = [''home'', ''u''], resolve = (\<lambda>p. p)\<rparr>
     ''20250914_120000''
     (Dir [(''tmp'', Dir [(''src'', Dir [
              (''agent_instructions'', Dir [(''languages'', Dir [(''python'', Dir [])])]),
              (''CLAUDE.md'', File ''intro''),
              (''.claude_backup_20250914_120000'', Dir [])])]),
           (''proj'', Dir [(''CLAUDE.md'', File ''mine'')])])
     [''proj''] [''tmp'', ''src''] [''python'']
   = (Inr (),
      Dir [(''tmp'', Dir [(''src'', Dir [
              (''agent_instructions'', Dir [(''languages'', Dir [(''python'', Dir [])])]),
              (''CLAUDE.md'', File (''intro'' @ [CHR 0x0A])),
              (''.claude_backup_20250914_120000'', Dir [])])]),
           (''proj'', Dir [
              (''agent_instructions'', Dir [(''languages'', Dir [(''python'', Dir [])])]),
              (''CLAUDE.md'', File (''intro'' @ [CHR 0x0A])),
              (''.claude_backup_20250914_120000'', Dir [])])],
      [[''proj'', ''.claude_backup_20250914_120000'']])"
  by code_simp

section \<open>Project installer: two runs in a row\<close>


















































text \<open>
  The hypothesis on links cannot be dropped. Below the destination holds a link
  \<^verbatim>\<open>CLAUDE.md\<close> that cannot be followed: for \<^verbatim>\<open>Path.exists()\<close> it does not collide, so it
  is not backed up, and \<^verbatim>\<open>shutil.copy2\<close> writes the manifest through it. The entry of the
  destination is still the link, and the file it leads to has been created.
\<close>

lemma install_configuration_writes_through_link:
  "install_configuration \<lparr>euid = 1000, home = [''home'', ''u''], resolve = (\<lambda>p. p)\<rparr>
     ''20250914_120000''
     (Dir [(''tmp'', Dir [
              (''a'', Dir [(''agent_instructions'', Dir [(''languages'', Dir [(''python'', Dir [])])]),
                           (''CLAUDE.md'', File ''intro'')])]),
           (''proj'', Dir [(''CLAUDE.md'', Symlink [''proj'', ''elsewhere''])])])
     [''proj''] [''tmp'', ''a''] [''python'']
   = (Inr (),
      Dir [(''tmp'', Dir [
              (''a'', Dir [(''agent_instructions'', Dir [(''languages'', Dir [(''python'', Dir [])])]),
                           (''CLAUDE.md'', File (''intro'' @ [CHR 0x0A]))])]),
           (''proj'', Dir [
              (''CLAUDE.md'', Symlink [''proj'', ''elsewhere'']),
              (''agent_instructions'', Dir [(''languages'', Dir [(''python'', Dir [])])]),
              (''elsewhere'', File (''intro'' @ [CHR 0x0A]))])],
      [])"
  by code_simp

end
